theory Spec2Isabelle
  imports Complex_Main "HOL-Library.Sublist"
begin

section \<open>ASMD \<open>audioscoredataset.py\<close>: the data model\<close>

text \<open>
  The exceptions the module can raise. \<open>ReaderError\<close> stands for whatever the external
  audio reader or the gzip/JSON decoder raises; it is propagated unchanged.
\<close>

datatype error =
    KeyError
  | IndexError
  | ValueError
  | TypeError
  | UnboundLocalError
  | ReaderError

text \<open>
  Path values of the manifest. \<open>sources.path\<close> is a list of lists of strings and
  \<open>ground_truth\<close> is a list of strings or of lists of strings, and \<open>filter\<close> stores either
  a whole list or one element of it in an item, so the values are kept as JSON trees.
\<close>

datatype jv = JStr string | JList "jv list"

text \<open>
  A song of the manifest: \<open>recording\<close> is \<open>song['recording']['path']\<close>; \<open>sources\<close> is
  \<open>song['sources']['path']\<close> when the key \<open>"sources"\<close> is present, \<open>None\<close> otherwise.
\<close>

record song =
  composer :: string
  instruments :: "string list"
  recording :: "jv list"
  sources :: "jv list option"
  ground_truth :: "jv list"

text \<open>A dataset descriptor; its \<open>ground_truth\<close> dictionary is an association list.\<close>

record dataset_descr =
  name :: string
  ensemble :: bool
  ds_instruments :: "string list"
  ds_ground_truth :: "(string \<times> int) list"
  songs :: "song list"

record manifest =
  install_dir :: string
  datasets :: "dataset_descr list"

text \<open>An element \<open>[mix, source, gts]\<close> of \<open>self.paths\<close>.\<close>

record item =
  mix :: jv
  source :: jv
  gts :: jv

text \<open>
  The \<open>Dataset\<close> object: \<open>__init__\<close> binds \<open>data\<close>, \<open>install_dir\<close>, \<open>decompress_path\<close>
  and \<open>paths\<close>.
\<close>

record Dataset =
  data :: manifest
  self_install_dir :: string
  decompress_path :: string
  paths :: "item list"

definition init :: "manifest \<Rightarrow> Dataset" where
  "init m = \<lparr>data = m, self_install_dir = install_dir m, decompress_path = ''./'', paths = []\<rparr>"

text \<open>The keyword arguments of \<open>filter\<close>, with their defaults in \<open>default_args\<close>.\<close>

record filter_args =
  arg_instrument :: string
  arg_ensemble :: "bool option"
  arg_mixed :: bool
  arg_sources :: bool
  arg_all :: bool
  arg_composer :: string
  arg_datasets :: "string list"
  arg_ground_truth :: "(string \<times> int) list"

definition default_args :: filter_args where
  "default_args = \<lparr>arg_instrument = [], arg_ensemble = None, arg_mixed = True,
     arg_sources = False, arg_all = False, arg_composer = [], arg_datasets = [],
     arg_ground_truth = []\<rparr>"

section \<open>Python primitives\<close>

text \<open>\<open>xs[i]\<close> on a list: an index below zero is taken from the end; IndexError outside the list.\<close>

definition py_getitem :: "'a list \<Rightarrow> int \<Rightarrow> error + 'a" where
  "py_getitem xs i =
     (if 0 \<le> i \<and> i < int (length xs) then Inr (xs ! nat i)
      else if i < 0 \<and> - int (length xs) \<le> i then Inr (xs ! nat (int (length xs) + i))
      else Inl IndexError)"

text \<open>\<open>xs.index(x)\<close>: the first position of \<open>x\<close>, ValueError when it is absent.\<close>

fun py_index :: "'a list \<Rightarrow> 'a \<Rightarrow> error + int" where
  "py_index [] x = Inl ValueError"
| "py_index (y # ys) x =
     (if y = x then Inr 0
      else (case py_index ys x of Inl e \<Rightarrow> Inl e | Inr i \<Rightarrow> Inr (i + 1)))"

text \<open>\<open>s in t\<close> on strings: \<open>s\<close> occurs in \<open>t\<close> as a contiguous substring.\<close>

fun str_in :: "string \<Rightarrow> string \<Rightarrow> bool" where
  "str_in s [] = (s = [])"
| "str_in s (c # t) = (prefix s (c # t) \<or> str_in s t)"

section \<open>\<open>Dataset.filter\<close>\<close>

text \<open>
  The loop \<open>for gt in ground_truth\<close> of the dataset-level checks: a kind the dataset's
  dictionary lacks raises KeyError, the first mismatch clears the flag and breaks.
\<close>

fun check_ground_truth :: "(string \<times> int) list \<Rightarrow> (string \<times> int) list \<Rightarrow> bool \<Rightarrow> error + bool" where
  "check_ground_truth d [] FLAG = Inr FLAG"
| "check_ground_truth d (gt # rest) FLAG =
     (case map_of d (fst gt) of
        None \<Rightarrow> Inl KeyError
      | Some v \<Rightarrow> if v \<noteq> snd gt then Inr False else check_ground_truth d rest FLAG)"

text \<open>Lines 72 to 91: the value of \<open>FLAG\<close> after the dataset-level checks.\<close>

definition dataset_flag :: "filter_args \<Rightarrow> dataset_descr \<Rightarrow> error + bool" where
  "dataset_flag a d =
     (let FLAG = True;
          FLAG = (if length (arg_datasets a) > 0
                  then (if name d \<in> set (arg_datasets a) then True else False)
                  else FLAG);
          FLAG = (case arg_ensemble a of
                    None \<Rightarrow> FLAG
                  | Some e \<Rightarrow> if e \<noteq> ensemble d then False else FLAG);
          FLAG = (if arg_instrument a \<noteq> []
                  then (if arg_instrument a \<notin> set (ds_instruments d) then False else FLAG)
                  else FLAG)
      in check_ground_truth (ds_ground_truth d) (arg_ground_truth a) FLAG)"

text \<open>Lines 96 to 102: the song-level checks, which update the same \<open>FLAG\<close>.\<close>

definition song_flag :: "filter_args \<Rightarrow> song \<Rightarrow> bool \<Rightarrow> bool" where
  "song_flag a s FLAG =
     (let FLAG = (if arg_instrument a \<noteq> []
                  then (if arg_instrument a \<notin> set (instruments s) then False else FLAG)
                  else FLAG);
          FLAG = (if arg_composer a \<noteq> []
                  then (if \<not> str_in (arg_composer a) (composer s) then False else FLAG)
                  else FLAG)
      in FLAG)"

text \<open>Lines 105 to 121: the item built for an admitted song.\<close>

definition select_item :: "filter_args \<Rightarrow> song \<Rightarrow> error + item" where
  "select_item a s =
     (let mix' = (if arg_mixed a then JList (recording s) else JList []) in
      case (if arg_sources a then sources s else None) of
        None \<Rightarrow> Inr \<lparr>mix = mix', source = JList [], gts = JList (ground_truth s)\<rparr>
      | Some sp \<Rightarrow>
          if arg_all a
          then Inr \<lparr>mix = mix', source = JList sp, gts = JList (ground_truth s)\<rparr>
          else (case py_index (instruments s) (arg_instrument a) of
                  Inl e \<Rightarrow> Inl e
                | Inr idx \<Rightarrow>
                    (case py_getitem sp idx of
                       Inl e \<Rightarrow> Inl e
                     | Inr src \<Rightarrow>
                         (case py_getitem (ground_truth s) idx of
                            Inl e \<Rightarrow> Inl e
                          | Inr g \<Rightarrow> Inr \<lparr>mix = mix', source = src, gts = g\<rparr>))))"

text \<open>
  The inner loop over the songs of one dataset. \<open>FLAG\<close> is the variable of the outer loop:
  it is not reset between songs. An exception leaves \<open>self.paths\<close> as it is at that point,
  so the error carries the list.
\<close>

fun filter_songs :: "filter_args \<Rightarrow> song list \<Rightarrow> bool \<Rightarrow> item list
    \<Rightarrow> (error \<times> item list) + (bool \<times> item list)" where
  "filter_songs a [] FLAG ps = Inr (FLAG, ps)"
| "filter_songs a (s # ss) FLAG ps =
     (let FLAG = song_flag a s FLAG in
      if FLAG
      then (case select_item a s of
              Inl e \<Rightarrow> Inl (e, ps)
            | Inr it \<Rightarrow> filter_songs a ss FLAG (ps @ [it]))
      else filter_songs a ss FLAG ps)"

text \<open>The outer loop over \<open>self.data['datasets']\<close>.\<close>

fun filter_datasets :: "filter_args \<Rightarrow> dataset_descr list \<Rightarrow> item list
    \<Rightarrow> (error \<times> item list) + item list" where
  "filter_datasets a [] ps = Inr ps"
| "filter_datasets a (d # ds) ps =
     (case dataset_flag a d of
        Inl e \<Rightarrow> Inl (e, ps)
      | Inr FLAG \<Rightarrow>
          if FLAG
          then (case filter_songs a (songs d) FLAG ps of
                  Inl r \<Rightarrow> Inl r
                | Inr r \<Rightarrow> filter_datasets a ds (snd r))
          else filter_datasets a ds ps)"

text \<open>
  \<open>filter\<close> as a method: it has no \<open>return\<close> statement, so a normal run yields \<open>None\<close>
  (the unit value) and the updated object; a run that raises yields the exception and the
  object as the exception leaves it.
\<close>

definition filter_ds :: "filter_args \<Rightarrow> Dataset \<Rightarrow> (error \<times> Dataset) + (unit \<times> Dataset)" where
  "filter_ds a self =
     (case filter_datasets a (datasets (data self)) (paths self) of
        Inl (e, ps) \<Rightarrow> Inl (e, self\<lparr>paths := ps\<rparr>)
      | Inr ps \<Rightarrow> Inr ((), self\<lparr>paths := ps\<rparr>))"

section \<open>The retrieval facade\<close>

text \<open>
  \<open>os.path.join\<close> on two POSIX paths: an absolute second path replaces the first, and a
  separator is inserted unless the first is empty or ends with one.
\<close>

definition joinpath :: "string \<Rightarrow> string \<Rightarrow> string" where
  "joinpath a b =
     (if b \<noteq> [] \<and> hd b = CHR ''/'' then b
      else if a = [] \<or> last a = CHR ''/'' then a @ b
      else a @ ''/'' @ b)"

text \<open>
  The external collaborators, which are not part of this module, are parameters:
  \<open>io.open_audio\<close> maps a path to a waveform and a sample rate, and the gzip/JSON decoder
  maps a path to a ground-truth record. Samples, times and pitches are modelled as real
  numbers (the idealisation of the floating-point values numpy holds).
\<close>

type_synonym audio_reader = "string \<Rightarrow> error + (real list \<times> nat)"

text \<open>Iterating over a path value: a list yields its elements, a string its characters.\<close>

fun py_iter :: "jv \<Rightarrow> jv list" where
  "py_iter (JList xs) = xs"
| "py_iter (JStr s) = map (\<lambda>c. JStr [c]) s"

text \<open>
  The loops of \<open>get_mix\<close> and \<open>get_source\<close>: each file is opened and its audio appended;
  \<open>sr\<close> is bound by the loop body only, so it is \<open>None\<close> until the first iteration.
  \<open>joinpath\<close> raises TypeError on a path that is not a string.
\<close>

fun open_each :: "audio_reader \<Rightarrow> string \<Rightarrow> jv list \<Rightarrow> real list list \<Rightarrow> nat option
    \<Rightarrow> error + (real list list \<times> nat option)" where
  "open_each rd dir [] acc sr = Inr (acc, sr)"
| "open_each rd dir (JList v # fs) acc sr = Inl TypeError"
| "open_each rd dir (JStr fn # fs) acc sr =
     (case rd (joinpath dir fn) of
        Inl e \<Rightarrow> Inl e
      | Inr r \<Rightarrow> open_each rd dir fs (acc @ [fst r]) (Some (snd r)))"

text \<open>
  \<open>np.mean(recordings, axis=0)\<close> on a list of one-dimensional arrays: the elementwise sum
  divided by the number of arrays; arrays of different lengths do not form a
  two-dimensional array (ValueError).
\<close>

definition np_mean_axis0 :: "real list list \<Rightarrow> error + real list" where
  "np_mean_axis0 rs =
     (if list_all (\<lambda>r. length r = length (hd rs)) rs
      then Inr (map (\<lambda>j. sum_list (map (\<lambda>r. r ! j) rs) / real (length rs))
                  [0..<length (hd rs)])
      else Inl ValueError)"

definition get_mix :: "audio_reader \<Rightarrow> Dataset \<Rightarrow> int \<Rightarrow> error + (real list \<times> nat)" where
  "get_mix rd self idx =
     (case py_getitem (paths self) idx of
        Inl e \<Rightarrow> Inl e
      | Inr it \<Rightarrow>
          (case open_each rd (self_install_dir self) (py_iter (mix it)) [] None of
             Inl e \<Rightarrow> Inl e
           | Inr (recordings, sr) \<Rightarrow>
               (case (if length recordings > 1 then np_mean_axis0 recordings
                      else py_getitem recordings 0) of
                  Inl e \<Rightarrow> Inl e
                | Inr m \<Rightarrow>
                    (case sr of None \<Rightarrow> Inl UnboundLocalError | Some r \<Rightarrow> Inr (m, r)))))"

definition get_source :: "audio_reader \<Rightarrow> Dataset \<Rightarrow> int \<Rightarrow> error + (real list list \<times> nat)" where
  "get_source rd self idx =
     (case py_getitem (paths self) idx of
        Inl e \<Rightarrow> Inl e
      | Inr it \<Rightarrow>
          (case open_each rd (self_install_dir self) (py_iter (source it)) [] None of
             Inl e \<Rightarrow> Inl e
           | Inr (sources', sr) \<Rightarrow>
               (case sr of None \<Rightarrow> Inl UnboundLocalError | Some r \<Rightarrow> Inr (sources', r))))"

section \<open>Ground-truth records\<close>

record score =
  pitches :: "real list"
  onsets :: "real list"
  offsets :: "real list"
  velocities :: "real list"

record gt_record =
  non_aligned :: score
  broad_alignment :: score
  precise_alignment :: score
  instrument :: int

datatype score_type = Non_aligned | Broad_alignment | Precise_alignment

text \<open>\<open>gt[score_type]\<close> for the three keys the module uses.\<close>

fun gt_get :: "gt_record \<Rightarrow> score_type \<Rightarrow> score" where
  "gt_get gt Non_aligned = non_aligned gt"
| "gt_get gt Broad_alignment = broad_alignment gt"
| "gt_get gt Precise_alignment = precise_alignment gt"

type_synonym gt_loader = "string \<Rightarrow> error + gt_record"

fun load_each :: "gt_loader \<Rightarrow> string \<Rightarrow> jv list \<Rightarrow> gt_record list \<Rightarrow> error + gt_record list" where
  "load_each ld dir [] acc = Inr acc"
| "load_each ld dir (JList v # fs) acc = Inl TypeError"
| "load_each ld dir (JStr fn # fs) acc =
     (case ld (joinpath dir fn) of
        Inl e \<Rightarrow> Inl e
      | Inr gt \<Rightarrow> load_each ld dir fs (acc @ [gt]))"

definition get_gts :: "gt_loader \<Rightarrow> Dataset \<Rightarrow> int \<Rightarrow> error + gt_record list" where
  "get_gts ld self idx =
     (case py_getitem (paths self) idx of
        Inl e \<Rightarrow> Inl e
      | Inr it \<Rightarrow> load_each ld (self_install_dir self) (py_iter (gts it)) [])"

text \<open>\<open>get_item\<close> calls the three accessors in this order; the first exception ends it.\<close>

definition get_item :: "audio_reader \<Rightarrow> gt_loader \<Rightarrow> Dataset \<Rightarrow> int
    \<Rightarrow> error + ((real list \<times> nat) \<times> (real list list \<times> nat) \<times> gt_record list)" where
  "get_item rd ld self idx =
     (case get_mix rd self idx of
        Inl e \<Rightarrow> Inl e
      | Inr m \<Rightarrow>
          (case get_source rd self idx of
             Inl e \<Rightarrow> Inl e
           | Inr s \<Rightarrow>
               (case get_gts ld self idx of
                  Inl e \<Rightarrow> Inl e
                | Inr g \<Rightarrow> Inr (m, s, g))))"

section \<open>\<open>truncate_score\<close>\<close>

text \<open>The order in which the two loops of \<open>truncate_score\<close> visit the score types.\<close>

definition score_types :: "score_type list" where
  "score_types = [Non_aligned, Precise_alignment, Broad_alignment]"

text \<open>Lines 393 to 400: the first loop, started at the number of non-aligned pitches.\<close>

definition length_to_truncate :: "gt_record \<Rightarrow> nat" where
  "length_to_truncate gt =
     foldl (\<lambda>L st. if length (onsets (gt_get gt st)) > 0
                    then min (length (onsets (gt_get gt st)))
                           (min L (length (pitches (gt_get gt st))))
                    else L)
       (length (pitches (non_aligned gt))) score_types"

definition truncate_entry :: "nat \<Rightarrow> score \<Rightarrow> score" where
  "truncate_entry L sc =
     sc\<lparr>pitches := take L (pitches sc), velocities := take L (velocities sc),
        onsets := take L (onsets sc), offsets := take L (offsets sc)\<rparr>"

text \<open>Lines 403 to 407: the record after the assignments of the second loop.\<close>

definition truncate_score :: "gt_record \<Rightarrow> gt_record" where
  "truncate_score gt =
     (let L = length_to_truncate gt in
      gt\<lparr>non_aligned := truncate_entry L (non_aligned gt),
         precise_alignment := truncate_entry L (precise_alignment gt),
         broad_alignment := truncate_entry L (broad_alignment gt)\<rparr>)"

text \<open>\<open>find_bach10_errors\<close> only prints and returns whether the lengths differ.\<close>

definition find_bach10_errors :: "gt_record \<Rightarrow> score_type \<Rightarrow> bool" where
  "find_bach10_errors gt st =
     (length (pitches (gt_get gt st)) \<noteq> length (onsets (gt_get gt st)))"

section \<open>\<open>Dataset.get_score\<close>\<close>

text \<open>The sentinel the module writes for a missing value.\<close>

definition sentinel :: real where
  "sentinel = - 255"

text \<open>
  \<open>[-255] * n\<close> is the empty list for \<open>n \<le> 0\<close>; \<open>np.full_like(xs, v)\<close> on a
  one-dimensional array has the length of \<open>xs\<close>.
\<close>

definition py_repeat :: "real \<Rightarrow> int \<Rightarrow> real list" where
  "py_repeat v n = replicate (nat n) v"

definition full_like :: "real list \<Rightarrow> real \<Rightarrow> real list" where
  "full_like xs v = replicate (length xs) v"

text \<open>
  Lines 277 to 306, for one score-type entry: the four columns after the padding, in a
  \<open>score\<close> record. Each \<open>let\<close> is one assignment of the source; the two \<open>if/elif\<close> chains
  assign several variables and are written as one tuple each.
\<close>

definition reconcile :: "score \<Rightarrow> score" where
  "reconcile sc =
     (let pitches' = pitches sc;
          ons = onsets sc;
          ons = (if length ons = 0 then full_like pitches' sentinel else ons);
          missing = int (length pitches') - int (length ons);
          (pitches', ons) =
             (if missing < 0 then (pitches' @ py_repeat sentinel (- missing), ons)
              else if missing > 0 then (pitches', ons @ py_repeat sentinel missing)
              else (pitches', ons));
          offs = offsets sc @ py_repeat sentinel missing;
          offs = (if length offs = 0 then full_like ons sentinel else offs);
          vel = velocities sc @ py_repeat sentinel missing;
          vel = (if length vel = 0 then full_like ons sentinel else vel);
          missing = int (length pitches') - int (length vel);
          (pitches', ons, offs, vel) =
             (if missing < 0
              then (pitches' @ py_repeat sentinel (- missing),
                    ons @ py_repeat sentinel (- missing),
                    offs @ py_repeat sentinel (- missing), vel)
              else if missing > 0 then (pitches', ons, offs, vel @ py_repeat sentinel missing)
              else (pitches', ons, offs, vel))
      in \<lparr>pitches = pitches', onsets = ons, offsets = offs, velocities = vel\<rparr>)"

text \<open>
  The body of the loop over the ground truths: \<open>np.array\<close> of the six columns is a
  \<open>6 \<times> n\<close> array only when they have one length; otherwise no matrix is built (numpy
  raises ValueError on the ragged list; versions that still build an array of objects
  fail at the column selection instead). \<open>find_bach10_errors\<close> only prints, so the
  truncating path is \<open>truncate_score\<close> alone.
\<close>

definition note_block :: "nat \<Rightarrow> gt_record \<Rightarrow> score_type \<Rightarrow> bool \<Rightarrow> error + real list list" where
  "note_block i gt st trunc =
     (let gt = (if trunc then truncate_score gt else gt);
          r = reconcile (gt_get gt st);
          num = full_like (onsets r) (real i);
          instr = full_like (onsets r) (real_of_int (instrument gt));
          cols = [pitches r, onsets r, offsets r, velocities r, instr, num]
      in if list_all (\<lambda>c. length c = length (pitches r)) cols then Inr cols
         else Inl ValueError)"

fun score_blocks :: "score_type \<Rightarrow> bool \<Rightarrow> nat \<Rightarrow> gt_record list \<Rightarrow> real list list list
    \<Rightarrow> error + real list list list" where
  "score_blocks st trunc i [] mat = Inr mat"
| "score_blocks st trunc i (gt # rest) mat =
     (case note_block i gt st trunc of
        Inl e \<Rightarrow> Inl e
      | Inr b \<Rightarrow> score_blocks st trunc (Suc i) rest (mat @ [b]))"

text \<open>
  \<open>np.concatenate(mat, axis=1)\<close> joins the blocks row by row; \<open>mat.T\<close> turns the
  columns of a rectangular array into rows.
\<close>

definition np_concatenate_axis1 :: "real list list list \<Rightarrow> real list list" where
  "np_concatenate_axis1 mat =
     map (\<lambda>k. concat (map (\<lambda>b. b ! k) mat)) [0..<length (hd mat)]"

definition np_T :: "real list list \<Rightarrow> real list list" where
  "np_T m = map (\<lambda>j. map (\<lambda>row. row ! j) m) [0..<length (hd m)]"

text \<open>
  \<open>mat[:, 1].argsort()\<close> and the selection \<open>mat[perm]\<close>. numpy's default sort leaves the
  order of equal keys open; the model takes the stable order.
\<close>

definition column :: "real list list \<Rightarrow> nat \<Rightarrow> real list" where
  "column m k = map (\<lambda>row. row ! k) m"

definition argsort :: "real list \<Rightarrow> nat list" where
  "argsort xs = map snd (sort_key fst (zip xs [0..<length xs]))"

definition take_rows :: "real list list \<Rightarrow> nat list \<Rightarrow> real list list" where
  "take_rows m perm = map (\<lambda>i. m ! i) perm"

definition get_score :: "gt_loader \<Rightarrow> Dataset \<Rightarrow> int \<Rightarrow> score_type \<Rightarrow> bool
    \<Rightarrow> error + real list list" where
  "get_score ld self idx st trunc =
     (case get_gts ld self idx of
        Inl e \<Rightarrow> Inl e
      | Inr gs \<Rightarrow>
          (case score_blocks st trunc 0 gs [] of
             Inl e \<Rightarrow> Inl e
           | Inr mat \<Rightarrow>
               (case (if length mat > 1 then Inr (np_concatenate_axis1 mat)
                      else py_getitem mat 0) of
                  Inl e \<Rightarrow> Inl e
                | Inr m \<Rightarrow>
                    (let m = np_T m in Inr (take_rows m (argsort (column m 1)))))))"

section \<open>Concrete inputs\<close>

text \<open>
  The manifest of the specification's scenario: one dataset \<open>D\<close> of solo violin songs,
  here with a parameter for its list of songs.
\<close>

definition bach :: song where
  "bach = \<lparr>composer = ''Bach'', instruments = [''violin''], recording = [JStr ''a.wav''],
     sources = None, ground_truth = [JStr ''a.gt.gz'']\<rparr>"

definition mozart :: song where
  "mozart = \<lparr>composer = ''Mozart'', instruments = [''violin''], recording = [JStr ''m.wav''],
     sources = None, ground_truth = [JStr ''m.gt.gz'']\<rparr>"

definition solo_dataset :: "song list \<Rightarrow> dataset_descr" where
  "solo_dataset ss = \<lparr>name = ''D'', ensemble = False, ds_instruments = [''violin''],
     ds_ground_truth = [(''beats'', 1)], songs = ss\<rparr>"

definition solo_manifest :: "song list \<Rightarrow> manifest" where
  "solo_manifest ss = \<lparr>install_dir = ''/data'', datasets = [solo_dataset ss]\<rparr>"

definition bach_item :: item where
  "bach_item = \<lparr>mix = JList [JStr ''a.wav''], source = JList [], gts = JList [JStr ''a.gt.gz'']\<rparr>"

definition mozart_item :: item where
  "mozart_item = \<lparr>mix = JList [JStr ''m.wav''], source = JList [], gts = JList [JStr ''m.gt.gz'']\<rparr>"

text \<open>
  A song with isolated sources, played by a violin alone, in a dataset that lists a violin
  and a cello.
\<close>

definition duo :: song where
  "duo = \<lparr>composer = ''Bach'', instruments = [''violin''], recording = [JStr ''d.wav''],
     sources = Some [JList [JStr ''d_violin.wav'']],
     ground_truth = [JList [JStr ''d_violin.gt.gz'']]\<rparr>"

definition duo_manifest :: manifest where
  "duo_manifest = \<lparr>install_dir = ''/data'',
     datasets = [\<lparr>name = ''E'', ensemble = True, ds_instruments = [''violin'', ''cello''],
       ds_ground_truth = [(''beats'', 1)], songs = [duo]\<rparr>]\<rparr>"

text \<open>\<open>filter(instrument=i, sources=True)\<close>: single-source mode, \<open>all\<close> left at False.\<close>

definition single_source_args :: "string \<Rightarrow> filter_args" where
  "single_source_args i = default_args\<lparr>arg_instrument := i, arg_sources := True\<rparr>"

text \<open>The object after a call of \<open>filter\<close>, whether it returned or raised.\<close>

definition final_state :: "(error \<times> Dataset) + (unit \<times> Dataset) \<Rightarrow> Dataset" where
  "final_state r = (case r of Inl x \<Rightarrow> snd x | Inr x \<Rightarrow> snd x)"

text \<open>
  The ground-truth entry of the specification's padding scenario, and a record that holds
  it under \<open>non_aligned\<close>.
\<close>

definition scenario_entry :: score where
  "scenario_entry = \<lparr>pitches = [60, 62, 64], onsets = [0, 1 / 2], offsets = [], velocities = []\<rparr>"

definition empty_entry :: score where
  "empty_entry = \<lparr>pitches = [], onsets = [], offsets = [], velocities = []\<rparr>"

definition scenario_gt :: gt_record where
  "scenario_gt = \<lparr>non_aligned = scenario_entry, broad_alignment = empty_entry,
     precise_alignment = empty_entry, instrument = 40\<rparr>"

text \<open>
  The truncation length in the words of the specification: the lengths it observes are
  the onsets length and the pitches length of every score type whose onsets are not
  empty, and the claimed length is their minimum. These two definitions follow the
  specification, not the source; \<open>length_to_truncate\<close> is the source's.
\<close>

definition observed_lengths :: "gt_record \<Rightarrow> nat list" where
  "observed_lengths gt =
     concat (map (\<lambda>st. [length (onsets (gt_get gt st)), length (pitches (gt_get gt st))])
       (filter (\<lambda>st. onsets (gt_get gt st) \<noteq> []) score_types))"

definition claimed_length :: "gt_record \<Rightarrow> nat" where
  "claimed_length gt = Min (set (observed_lengths gt))"

text \<open>
  A record whose non-aligned score has two pitches and no onsets, and whose precise
  alignment has three notes.
\<close>

definition pitches_only_gt :: gt_record where
  "pitches_only_gt =
     \<lparr>non_aligned = \<lparr>pitches = [60, 62], onsets = [], offsets = [], velocities = []\<rparr>,
      broad_alignment = empty_entry,
      precise_alignment = \<lparr>pitches = [60, 62, 64], onsets = [0, 1, 2], offsets = [1, 2, 3],
        velocities = [80, 80, 80]\<rparr>,
      instrument = 40\<rparr>"

text \<open>An item with two ground-truth files, and the decoder that serves them.\<close>

definition entry_a :: score where
  "entry_a = \<lparr>pitches = [60, 62], onsets = [3 / 2, 1 / 2], offsets = [2, 1], velocities = [80, 90]\<rparr>"

definition entry_b :: score where
  "entry_b = \<lparr>pitches = [48], onsets = [1], offsets = [], velocities = []\<rparr>"

definition gt_a :: gt_record where
  "gt_a = \<lparr>non_aligned = entry_a, broad_alignment = entry_a, precise_alignment = entry_a,
     instrument = 40\<rparr>"

definition gt_b :: gt_record where
  "gt_b = \<lparr>non_aligned = entry_b, broad_alignment = entry_b, precise_alignment = entry_b,
     instrument = 42\<rparr>"

definition two_gts_loader :: gt_loader where
  "two_gts_loader fn =
     (if fn = ''/data/a.gt.gz'' then Inr gt_a
      else if fn = ''/data/b.gt.gz'' then Inr gt_b
      else Inl ReaderError)"

definition two_gts_dataset :: Dataset where
  "two_gts_dataset = \<lparr>data = \<lparr>install_dir = ''/data'', datasets = []\<rparr>,
     self_install_dir = ''/data'', decompress_path = ''./'',
     paths = [\<lparr>mix = JList [JStr ''ab.wav''], source = JList [],
               gts = JList [JStr ''a.gt.gz'', JStr ''b.gt.gz'']\<rparr>]\<rparr>"

text \<open>
  An audio reader that knows two files of three samples each, and an object whose first
  item has one mix path and whose second has two.
\<close>

definition two_mics_reader :: audio_reader where
  "two_mics_reader fn =
     (if fn = ''/data/a.wav'' then Inr ([1, 3, 0], 44100)
      else if fn = ''/data/b.wav'' then Inr ([3, 4, 1 / 2], 48000)
      else Inl ReaderError)"

definition mics_dataset :: Dataset where
  "mics_dataset = \<lparr>data = \<lparr>install_dir = ''/data'', datasets = []\<rparr>,
     self_install_dir = ''/data'', decompress_path = ''./'',
     paths = [\<lparr>mix = JList [JStr ''a.wav''], source = JList [], gts = JList []\<rparr>,
              \<lparr>mix = JList [JStr ''a.wav'', JStr ''b.wav''], source = JList [], gts = JList []\<rparr>]\<rparr>"

definition no_gt_loader :: gt_loader where
  "no_gt_loader fn = Inl ReaderError"

section \<open>Properties of \<open>filter\<close>\<close>

lemmas example_defs = bach_def mozart_def solo_dataset_def solo_manifest_def bach_item_def
  mozart_item_def duo_def duo_manifest_def single_source_args_def default_args_def init_def

lemmas filter_defs = filter_ds_def dataset_flag_def song_flag_def select_item_def

text \<open>
  C1 (the code departs from the claim). The claim: a song of an admitted dataset is
  appended exactly when it satisfies the song-level checks itself, whatever earlier songs
  did. In the dataset [Mozart, Bach] with \<open>composer="ach"\<close> the dataset is admitted and the
  song Bach passes the song-level checks on its own, but \<open>FLAG\<close>, cleared by Mozart, is
  never set again: no item is appended. With the songs in the other order Bach is
  appended.
\<close>

theorem sticky_flag_drops_later_song:
  "dataset_flag (default_args\<lparr>arg_composer := ''ach''\<rparr>) (solo_dataset [mozart, bach]) = Inr True
   \<and> song_flag (default_args\<lparr>arg_composer := ''ach''\<rparr>) bach True = True
   \<and> filter_ds (default_args\<lparr>arg_composer := ''ach''\<rparr>) (init (solo_manifest [mozart, bach]))
       = Inr ((), init (solo_manifest [mozart, bach]))
   \<and> filter_ds (default_args\<lparr>arg_composer := ''ach''\<rparr>) (init (solo_manifest [bach, mozart]))
       = Inr ((), (init (solo_manifest [bach, mozart]))\<lparr>paths := [bach_item]\<rparr>)"
  by (simp add: example_defs filter_defs)

subsection \<open>Every call appends to \<open>self.paths\<close>\<close>




text \<open>
  C2 (the code departs from the claim). The claim: a second call of \<open>filter\<close> with the
  same arguments gives the sequence the first call gave, not a longer one. \<open>paths\<close> is
  bound to the empty list by \<open>__init__\<close> only and \<open>filter\<close> appends without clearing it:
  on the manifest [Mozart, Bach] with the default arguments the first call leaves the two
  items in \<open>paths\<close>, and the second call on the same object leaves four, each song
  twice.
\<close>

theorem second_call_repeats_items:
  "filter_ds default_args (init (solo_manifest [mozart, bach]))
     = Inr ((), (init (solo_manifest [mozart, bach]))\<lparr>paths := [mozart_item, bach_item]\<rparr>)
   \<and> filter_ds default_args ((init (solo_manifest [mozart, bach]))\<lparr>paths := [mozart_item, bach_item]\<rparr>)
     = Inr ((), (init (solo_manifest [mozart, bach]))
                  \<lparr>paths := [mozart_item, bach_item, mozart_item, bach_item]\<rparr>)
   \<and> [mozart_item, bach_item, mozart_item, bach_item] \<noteq> [mozart_item, bach_item]"
  by (simp add: example_defs filter_defs)



subsection \<open>Single-source mode\<close>

lemma py_index_absent: "x \<notin> set xs \<Longrightarrow> py_index xs x = Inl ValueError"
  by (induction xs) auto

text \<open>
  C6, as stated, fails: with \<open>sources=True\<close>, \<open>all=False\<close> and the instrument
  \<open>cello\<close>, which the dataset lists and the song does not, the song-level membership
  check rejects the song before \<open>index\<close> is reached, and \<open>filter\<close> returns normally with
  nothing appended.
\<close>

theorem absent_instrument_skipped_counterexample:
  "arg_sources (single_source_args ''cello'') \<and> \<not> arg_all (single_source_args ''cello'')
   \<and> ''cello'' \<notin> set (instruments duo)
   \<and> dataset_flag (single_source_args ''cello'') (hd (datasets duo_manifest)) = Inr True
   \<and> filter_ds (single_source_args ''cello'') (init duo_manifest) = Inr ((), init duo_manifest)"
  by (simp add: example_defs filter_defs)

lemma filter_songs_prefix:
  "filter_songs a (pre @ rest) F ps =
     (case filter_songs a pre F ps of
        Inl r \<Rightarrow> Inl r
      | Inr r \<Rightarrow> filter_songs a rest (fst r) (snd r))"
proof (induction pre arbitrary: F ps)
  case Nil
  show ?case by simp
next
  case (Cons s pre)
  show ?case
  proof (cases "song_flag a s F")
    case False
    then show ?thesis using Cons.IH [of False ps] by simp
  next
    case True
    then show ?thesis
      using Cons.IH [of True] by (cases "select_item a s") simp_all
  qed
qed

text \<open>
  C6, amended: take \<open>sources=True\<close>, \<open>all=False\<close> and a song \<open>s\<close> whose instrument list
  does not contain the instrument, at any place in the song list of an admitted dataset
  where the songs \<open>pre\<close> before it were processed without an exception and left the flag
  set (for the first song \<open>pre\<close> is empty). A non-empty instrument makes the song-level
  membership check reject \<open>s\<close>: nothing is appended for it and no error is raised. With
  the empty (default) instrument, a song that fails the composer check is rejected
  without an error, a song that passes it and has a \<open>sources\<close> entry makes \<open>filter\<close> raise
  ValueError from \<open>index\<close>, and a song that passes it and has no \<open>sources\<close> entry is
  appended with empty source paths.
\<close>

theorem single_source_absent_instrument:
  assumes "arg_sources a" and "\<not> arg_all a" and "arg_instrument a \<notin> set (instruments s)"
    and "filter_songs a pre True ps = Inr (True, ps')"
  shows "filter_songs a (pre @ s # ss) True ps =
     (if arg_instrument a \<noteq> [] then filter_songs a ss False ps'
      else if arg_composer a \<noteq> [] \<and> \<not> str_in (arg_composer a) (composer s)
      then filter_songs a ss False ps'
      else if sources s = None
      then filter_songs a ss True
             (ps' @ [\<lparr>mix = (if arg_mixed a then JList (recording s) else JList []),
                      source = JList [], gts = JList (ground_truth s)\<rparr>])
      else Inl (ValueError, ps'))"
proof -
  have "filter_songs a (pre @ s # ss) True ps = filter_songs a (s # ss) True ps'"
    using assms(4) by (simp add: filter_songs_prefix)
  also have "\<dots> =
     (if arg_instrument a \<noteq> [] then filter_songs a ss False ps'
      else if arg_composer a \<noteq> [] \<and> \<not> str_in (arg_composer a) (composer s)
      then filter_songs a ss False ps'
      else if sources s = None
      then filter_songs a ss True
             (ps' @ [\<lparr>mix = (if arg_mixed a then JList (recording s) else JList []),
                      source = JList [], gts = JList (ground_truth s)\<rparr>])
      else Inl (ValueError, ps'))"
    using assms(1-3) py_index_absent [of "arg_instrument a" "instruments s"]
    by (auto simp: song_flag_def select_item_def split: option.splits)
  finally show ?thesis .
qed

theorem single_source_absent_instrument_witness:
  "filter_songs (single_source_args '''') [bach, duo] True [] = Inl (ValueError, [bach_item])
   \<and> filter_songs (single_source_args ''cello'') [duo] True [] = Inr (False, [])"
proof -
  have a: "arg_sources (single_source_args i)" "\<not> arg_all (single_source_args i)" for i
    by (simp_all add: example_defs)
  have b: "arg_instrument (single_source_args '''') \<notin> set (instruments duo)"
    "arg_instrument (single_source_args ''cello'') \<notin> set (instruments duo)"
    by (simp_all add: example_defs)
  have c: "filter_songs (single_source_args '''') [bach] True [] = Inr (True, [bach_item])"
    by (simp add: example_defs filter_defs)
  have d: "filter_songs (single_source_args ''cello'') [] True [] = Inr (True, [])"
    by simp
  show ?thesis
    using single_source_absent_instrument [OF a(1) a(2) b(1) c, of "[]"]
      single_source_absent_instrument [OF a(1) a(2) b(2) d, of "[]"]
    by (simp add: example_defs)
qed

section \<open>Properties of the retrieval facade\<close>

lemma mean_of_two:
  assumes "length w1 = length w2"
  shows "map (\<lambda>j. (w1 ! j + w2 ! j) / 2) [0..<length w1] = map2 (\<lambda>x y. (x + y) / 2) w1 w2"
  using assms by (intro nth_equalityI) simp_all

text \<open>
  C8: for an item of \<open>paths\<close> with exactly one mix path, \<open>get_mix\<close> returns the waveform
  the reader gives for that file, as it is, with its sample rate; with two mix paths
  whose waveforms have the same number of samples it returns their elementwise
  arithmetic mean (and the sample rate of the second file). Samples are real numbers
  here.
\<close>

theorem get_mix_one_or_two_paths:
  assumes "py_getitem (paths self) idx = Inr it"
  shows "(mix it = JList [JStr p] \<and> rd (joinpath (self_install_dir self) p) = Inr (w, sr)
            \<longrightarrow> get_mix rd self idx = Inr (w, sr))
       \<and> (mix it = JList [JStr p1, JStr p2]
            \<and> rd (joinpath (self_install_dir self) p1) = Inr (w1, sr1)
            \<and> rd (joinpath (self_install_dir self) p2) = Inr (w2, sr2)
            \<and> length w1 = length w2
            \<longrightarrow> get_mix rd self idx = Inr (map2 (\<lambda>x y. (x + y) / 2) w1 w2, sr2))"
proof (intro conjI impI)
  assume "mix it = JList [JStr p] \<and> rd (joinpath (self_install_dir self) p) = Inr (w, sr)"
  then show "get_mix rd self idx = Inr (w, sr)"
    using assms by (simp add: get_mix_def py_getitem_def)
next
  assume h: "mix it = JList [JStr p1, JStr p2]
            \<and> rd (joinpath (self_install_dir self) p1) = Inr (w1, sr1)
            \<and> rd (joinpath (self_install_dir self) p2) = Inr (w2, sr2)
            \<and> length w1 = length w2"
  then have "np_mean_axis0 [w1, w2] = Inr (map2 (\<lambda>x y. (x + y) / 2) w1 w2)"
    using mean_of_two [of w1 w2] by (simp add: np_mean_axis0_def)
  with h show "get_mix rd self idx = Inr (map2 (\<lambda>x y. (x + y) / 2) w1 w2, sr2)"
    using assms by (simp add: get_mix_def)
qed

theorem get_mix_one_or_two_paths_witness:
  "get_mix two_mics_reader mics_dataset 0 = Inr ([1, 3, 0], 44100)
   \<and> get_mix two_mics_reader mics_dataset 1 = Inr ([2, 7 / 2, 1 / 4], 48000)"
proof -
  have i0: "py_getitem (paths mics_dataset) 0
      = Inr \<lparr>mix = JList [JStr ''a.wav''], source = JList [], gts = JList []\<rparr>"
    by (simp add: py_getitem_def mics_dataset_def)
  have i1: "py_getitem (paths mics_dataset) 1
      = Inr \<lparr>mix = JList [JStr ''a.wav'', JStr ''b.wav''], source = JList [], gts = JList []\<rparr>"
    by (simp add: py_getitem_def mics_dataset_def)
  have ra: "two_mics_reader (joinpath (self_install_dir mics_dataset) ''a.wav'') = Inr ([1, 3, 0], 44100)"
    by (simp add: two_mics_reader_def joinpath_def mics_dataset_def)
  have rb: "two_mics_reader (joinpath (self_install_dir mics_dataset) ''b.wav'') = Inr ([3, 4, 1 / 2], 48000)"
    by (simp add: two_mics_reader_def joinpath_def mics_dataset_def)
  show ?thesis
    using get_mix_one_or_two_paths [OF i0, of "''a.wav''" two_mics_reader "[1, 3, 0]" 44100]
      get_mix_one_or_two_paths [OF i1, of _ two_mics_reader _ _ "''a.wav''" "''b.wav''"
        "[1, 3, 0]" 44100 "[3, 4, 1 / 2]" 48000]
      ra rb
    by simp
qed

subsection \<open>Items without source paths\<close>

lemma select_item_no_sources:
  "\<not> arg_sources a \<Longrightarrow> select_item a s = Inr it \<Longrightarrow> source it = JList []"
  by (auto simp: select_item_def)

lemma filter_songs_no_sources:
  assumes "\<not> arg_sources a" and "list_all (\<lambda>it. source it = JList []) ps"
  shows "case filter_songs a ss F ps of
           Inl r \<Rightarrow> list_all (\<lambda>it. source it = JList []) (snd r)
         | Inr r \<Rightarrow> list_all (\<lambda>it. source it = JList []) (snd r)"
  using assms(2)
proof (induction ss arbitrary: F ps)
  case Nil
  then show ?case by simp
next
  case (Cons s ss)
  show ?case
  proof (cases "song_flag a s F")
    case False
    then show ?thesis using Cons.IH [OF Cons.prems, of False] by simp
  next
    case True
    show ?thesis
    proof (cases "select_item a s")
      case (Inl e)
      with True Cons.prems show ?thesis by simp
    next
      case (Inr it)
      then have "list_all (\<lambda>it. source it = JList []) (ps @ [it])"
        using Cons.prems select_item_no_sources [OF assms(1)] by simp
      from Cons.IH [OF this, of True] True Inr show ?thesis by simp
    qed
  qed
qed

lemma filter_datasets_no_sources:
  assumes "\<not> arg_sources a" and "list_all (\<lambda>it. source it = JList []) ps"
  shows "case filter_datasets a ds ps of
           Inl r \<Rightarrow> list_all (\<lambda>it. source it = JList []) (snd r)
         | Inr r \<Rightarrow> list_all (\<lambda>it. source it = JList []) r"
  using assms(2)
proof (induction ds arbitrary: ps)
  case Nil
  then show ?case by simp
next
  case (Cons d ds)
  show ?case
  proof (cases "dataset_flag a d")
    case (Inl e)
    with Cons.prems show ?thesis by simp
  next
    case (Inr F)
    show ?thesis
    proof (cases F)
      case False
      with Inr show ?thesis using Cons.IH [OF Cons.prems] by simp
    next
      case True
      show ?thesis
      proof (cases "filter_songs a (songs d) True ps")
        case (Inl r)
        then show ?thesis
          using filter_songs_no_sources [OF assms(1) Cons.prems, of "songs d" True]
            \<open>dataset_flag a d = Inr F\<close> True by simp
      next
        case (Inr r)
        then have "list_all (\<lambda>it. source it = JList []) (snd r)"
          using filter_songs_no_sources [OF assms(1) Cons.prems, of "songs d" True] by simp
        from Cons.IH [OF this] Inr \<open>dataset_flag a d = Inr F\<close> True show ?thesis by simp
      qed
    qed
  qed
qed

lemma filter_ds_no_sources:
  assumes "\<not> arg_sources a"
  shows "list_all (\<lambda>it. source it = JList []) (paths (final_state (filter_ds a (init m))))"
  using filter_datasets_no_sources [OF assms, of "[]" "datasets m"]
  by (auto simp: filter_ds_def final_state_def init_def split: sum.splits prod.splits)

text \<open>
  C10: for an item of \<open>paths\<close> whose source paths are the empty list, \<open>get_source\<close> raises
  UnboundLocalError (the loop never binds \<open>sr\<close>) whatever the reader does, and \<open>get_item\<close>
  raises too. These are the items \<open>filter\<close> makes when \<open>sources\<close> is False: every item of
  a freshly loaded object after such a call has empty source paths.
\<close>

theorem get_source_unbound_sample_rate:
  "(py_getitem (paths self) idx = Inr it \<and> source it = JList []
      \<longrightarrow> get_source rd self idx = Inl UnboundLocalError
          \<and> (\<exists>e. get_item rd ld self idx = Inl e))
   \<and> (\<not> arg_sources a
      \<longrightarrow> list_all (\<lambda>it. source it = JList []) (paths (final_state (filter_ds a (init m)))))"
proof (intro conjI impI)
  assume h: "py_getitem (paths self) idx = Inr it \<and> source it = JList []"
  then show "get_source rd self idx = Inl UnboundLocalError"
    by (simp add: get_source_def)
  then show "\<exists>e. get_item rd ld self idx = Inl e"
    by (cases "get_mix rd self idx") (simp_all add: get_item_def)
next
  assume "\<not> arg_sources a"
  then show "list_all (\<lambda>it. source it = JList []) (paths (final_state (filter_ds a (init m))))"
    by (rule filter_ds_no_sources)
qed

theorem get_source_unbound_sample_rate_witness:
  "get_source two_mics_reader mics_dataset 0 = Inl UnboundLocalError
   \<and> (\<exists>e. get_item two_mics_reader no_gt_loader mics_dataset 0 = Inl e)
   \<and> list_all (\<lambda>it. source it = JList [])
       (paths (final_state (filter_ds default_args (init (solo_manifest [mozart, bach])))))"
proof -
  have i0: "py_getitem (paths mics_dataset) 0
         = Inr \<lparr>mix = JList [JStr ''a.wav''], source = JList [], gts = JList []\<rparr>
     \<and> source \<lparr>mix = JList [JStr ''a.wav''], source = JList [], gts = JList []\<rparr> = JList []"
    by (simp add: py_getitem_def mics_dataset_def)
  have a: "\<not> arg_sources default_args" by (simp add: default_args_def)
  show ?thesis
    using get_source_unbound_sample_rate [of mics_dataset 0 _ two_mics_reader no_gt_loader
        default_args "solo_manifest [mozart, bach]"] i0 a
    by blast
qed

section \<open>Properties of the normalizer\<close>

lemmas np_defs = py_repeat_def full_like_def sentinel_def

text \<open>
  C3 (the code departs from the claim). The claim: for pitches [60, 62, 64], onsets
  [0.0, 0.5] and empty offsets and velocities, all four columns come out with three
  entries, the offsets three sentinels. The code appends \<open>missing = 1\<close> sentinel to the
  empty offsets before it tests for emptiness, so the test fails and the offsets stay at
  one entry; the second round pads the velocities only. The six columns are then ragged
  and no note matrix is built.
\<close>

theorem scenario_offsets_stay_short:
  "reconcile scenario_entry
     = \<lparr>pitches = [60, 62, 64], onsets = [0, 1 / 2, - 255], offsets = [- 255],
        velocities = [- 255, - 255, - 255]\<rparr>
   \<and> note_block 0 scenario_gt Non_aligned False = Inl ValueError"
  by (simp add: note_block_def reconcile_def scenario_gt_def scenario_entry_def np_defs
      Let_def eval_nat_numeral)

text \<open>
  C9: on an entry whose pitches, onsets, offsets and velocities have one length, the
  non-truncating reconciliation changes nothing, so a second application equals the
  first.
\<close>

theorem reconcile_equal_lengths_noop:
  assumes "length (onsets sc) = length (pitches sc)"
    and "length (offsets sc) = length (pitches sc)"
    and "length (velocities sc) = length (pitches sc)"
  shows "reconcile sc = sc \<and> reconcile (reconcile sc) = reconcile sc"
proof -
  obtain p on off v where sc: "sc = \<lparr>pitches = p, onsets = on, offsets = off, velocities = v\<rparr>"
    by (cases sc) simp
  have len: "length on = length p" "length off = length p" "length v = length p"
    using assms by (simp_all add: sc)
  have "reconcile sc = sc"
  proof (cases "p = []")
    case True
    then have "on = []" "off = []" "v = []" using len by simp_all
    with True show ?thesis by (simp add: sc reconcile_def np_defs)
  next
    case False
    then have "on \<noteq> []" "off \<noteq> []" "v \<noteq> []" using len by auto
    then show ?thesis by (simp add: sc reconcile_def np_defs len)
  qed
  then show ?thesis by simp
qed

theorem reconcile_equal_lengths_noop_witness:
  "reconcile entry_a = entry_a \<and> reconcile (reconcile entry_a) = reconcile entry_a"
  using reconcile_equal_lengths_noop [of entry_a] by (simp add: entry_a_def)

subsection \<open>The truncation length\<close>

lemma Min_insert_three:
  fixes S :: "nat set"
  assumes "finite S"
  shows "Min (insert (min a (min L b)) S) = Min (insert L (insert a (insert b S)))"
proof (cases "S = {}")
  case True
  have "Min {L, a, b} = min L (min a b)" by simp
  with True show ?thesis by (simp add: min.left_commute)
next
  case False
  have l: "Min (insert (min a (min L b)) S) = min (min a (min L b)) (Min S)"
    using assms False by (rule Min_insert)
  have "Min (insert b S) = min b (Min S)"
    using assms False by (rule Min_insert)
  moreover have "Min (insert a (insert b S)) = min a (Min (insert b S))"
    by (rule Min_insert) (use assms in simp_all)
  moreover have "Min (insert L (insert a (insert b S))) = min L (Min (insert a (insert b S)))"
    by (rule Min_insert) (use assms in simp_all)
  ultimately have r: "Min (insert L (insert a (insert b S))) = min L (min a (min b (Min S)))"
    by simp
  show ?thesis unfolding l r by linarith
qed

lemma foldl_length_to_truncate:
  "foldl (\<lambda>L st. if length (onsets (gt_get gt st)) > 0
                    then min (length (onsets (gt_get gt st)))
                           (min L (length (pitches (gt_get gt st))))
                    else L) L0 sts
   = Min (set (L0 # concat (map (\<lambda>st. [length (onsets (gt_get gt st)), length (pitches (gt_get gt st))])
       (filter (\<lambda>st. onsets (gt_get gt st) \<noteq> []) sts))))"
proof (induction sts arbitrary: L0)
  case Nil
  show ?case by simp
next
  case (Cons st sts)
  let ?obs = "\<lambda>sts. concat (map (\<lambda>st. [length (onsets (gt_get gt st)), length (pitches (gt_get gt st))])
       (filter (\<lambda>st. onsets (gt_get gt st) \<noteq> []) sts))"
  show ?case
  proof (cases "onsets (gt_get gt st) = []")
    case True
    then have "?obs (st # sts) = ?obs sts" by simp
    moreover have "foldl (\<lambda>L st. if length (onsets (gt_get gt st)) > 0
                    then min (length (onsets (gt_get gt st)))
                           (min L (length (pitches (gt_get gt st))))
                    else L) L0 (st # sts)
        = foldl (\<lambda>L st. if length (onsets (gt_get gt st)) > 0
                    then min (length (onsets (gt_get gt st)))
                           (min L (length (pitches (gt_get gt st))))
                    else L) L0 sts"
      using True by simp
    ultimately show ?thesis using Cons.IH [of L0] by (simp only:)
  next
    case False
    let ?a = "length (onsets (gt_get gt st))" and ?b = "length (pitches (gt_get gt st))"
    have obs: "?obs (st # sts) = ?a # ?b # ?obs sts" using False by simp
    have step: "foldl (\<lambda>L st. if length (onsets (gt_get gt st)) > 0
                    then min (length (onsets (gt_get gt st)))
                           (min L (length (pitches (gt_get gt st))))
                    else L) L0 (st # sts)
        = foldl (\<lambda>L st. if length (onsets (gt_get gt st)) > 0
                    then min (length (onsets (gt_get gt st)))
                           (min L (length (pitches (gt_get gt st))))
                    else L) (min ?a (min L0 ?b)) sts"
      using False by simp
    have "Min (set (min ?a (min L0 ?b) # ?obs sts)) = Min (set (L0 # ?a # ?b # ?obs sts))"
      using Min_insert_three [of "set (?obs sts)" ?a L0 ?b] by (simp only: list.set finite_set)
    then show ?thesis
      unfolding step obs using Cons.IH [of "min ?a (min L0 ?b)"] by (simp only:)
  qed
qed

lemma truncate_score_fields:
  "pitches (gt_get (truncate_score gt) st) = take (length_to_truncate gt) (pitches (gt_get gt st))"
  "velocities (gt_get (truncate_score gt) st) = take (length_to_truncate gt) (velocities (gt_get gt st))"
  "onsets (gt_get (truncate_score gt) st) = take (length_to_truncate gt) (onsets (gt_get gt st))"
  "offsets (gt_get (truncate_score gt) st) = take (length_to_truncate gt) (offsets (gt_get gt st))"
  by (cases st; simp add: truncate_score_def truncate_entry_def Let_def)+

text \<open>
  C5, as stated, fails: the first loop of \<open>truncate_score\<close> starts from the number of
  non-aligned pitches whether or not the non-aligned onsets are empty. In
  \<open>pitches_only_gt\<close> only the precise alignment has onsets, three of them with three
  pitches, so the claimed length is 3; the code cuts its pitches to the two of the
  non-aligned score.
\<close>

theorem truncate_claimed_length_counterexample:
  "claimed_length pitches_only_gt = 3
   \<and> take (claimed_length pitches_only_gt) (pitches (precise_alignment pitches_only_gt))
       = [60, 62, 64]
   \<and> pitches (precise_alignment (truncate_score pitches_only_gt)) = [60, 62]"
  by (simp add: claimed_length_def observed_lengths_def score_types_def pitches_only_gt_def
      empty_entry_def truncate_score_def truncate_entry_def length_to_truncate_def)

text \<open>
  C5, amended: \<open>truncate_score\<close> replaces the pitches, velocities, onsets and offsets of
  each of the three score types by their first \<open>L\<close> entries, where \<open>L\<close> is the minimum of
  the number of non-aligned pitches and of the onsets length and the pitches length of
  every score type whose onsets are not empty.
\<close>

theorem truncate_score_length:
  "(let L = Min (set (length (pitches (non_aligned gt)) # observed_lengths gt)) in
     pitches (gt_get (truncate_score gt) st) = take L (pitches (gt_get gt st))
     \<and> velocities (gt_get (truncate_score gt) st) = take L (velocities (gt_get gt st))
     \<and> onsets (gt_get (truncate_score gt) st) = take L (onsets (gt_get gt st))
     \<and> offsets (gt_get (truncate_score gt) st) = take L (offsets (gt_get gt st)))"
proof -
  have "length_to_truncate gt = Min (set (length (pitches (non_aligned gt)) # observed_lengths gt))"
    unfolding length_to_truncate_def observed_lengths_def
    by (rule foldl_length_to_truncate)
  then show ?thesis
    unfolding Let_def using truncate_score_fields [of gt st] by presburger
qed

subsection \<open>The note matrix is ordered by onset\<close>

lemma zip_upt_nth:
  assumes "p \<in> set (zip xs [0..<length xs])"
  shows "xs ! snd p = fst p \<and> snd p < length xs"
proof -
  obtain k where "k < length (zip xs [0..<length xs])" and "zip xs [0..<length xs] ! k = p"
    using assms by (auto simp: in_set_conv_nth)
  then show ?thesis by auto
qed

lemma argsort_sorted: "sorted (map (\<lambda>i. xs ! i) (argsort xs))"
proof -
  let ?ps = "sort_key fst (zip xs [0..<length xs])"
  have "map (\<lambda>i. xs ! i) (argsort xs) = map (\<lambda>p. xs ! snd p) ?ps"
    by (simp add: argsort_def comp_def)
  also have "\<dots> = map fst ?ps"
    by (rule map_cong) (use zip_upt_nth [of _ xs] in auto)
  finally show ?thesis by simp
qed

lemma argsort_in_range: "i \<in> set (argsort xs) \<Longrightarrow> i < length xs"
  using zip_upt_nth [of _ xs] by (auto simp: argsort_def)

lemma sorted_onset_column: "sorted (column (take_rows m (argsort (column m 1))) 1)"
proof -
  have "column (take_rows m (argsort (column m 1))) 1
      = map (\<lambda>i. column m 1 ! i) (argsort (column m 1))"
    unfolding column_def take_rows_def map_map comp_def
  proof (rule map_cong)
    fix i assume "i \<in> set (argsort (map (\<lambda>row. row ! 1) m))"
    then have "i < length m" using argsort_in_range by fastforce
    then show "m ! i ! 1 = map (\<lambda>row. row ! 1) m ! i" by simp
  qed simp
  then show ?thesis using argsort_sorted [of "column m 1"] by simp
qed

lemma two_gts_score:
  "get_score two_gts_loader two_gts_dataset 0 Non_aligned False
     = Inr [[62, 1 / 2, 1, 90, 40, 0], [48, 1, - 255, - 255, 42, 1], [60, 3 / 2, 2, 80, 40, 0]]"
  by (simp add: get_score_def get_gts_def two_gts_dataset_def two_gts_loader_def py_getitem_def
      joinpath_def note_block_def reconcile_def np_defs gt_a_def gt_b_def entry_a_def entry_b_def
      np_concatenate_axis1_def np_T_def column_def argsort_def take_rows_def Let_def
      upt_conv_Cons)

text \<open>
  C7: whenever \<open>get_score\<close> returns a note matrix, its column 1 (the onsets) is
  non-decreasing from the first row to the last, over the notes of all the ground
  truths of the item. Values are real numbers here.
\<close>

theorem get_score_sorted_by_onset:
  assumes "get_score ld self idx st trunc = Inr m"
  shows "sorted (column m 1)"
proof -
  obtain m0 where "m = take_rows m0 (argsort (column m0 1))"
    using assms unfolding get_score_def
    by (auto simp: Let_def split: sum.splits if_splits)
  then show ?thesis using sorted_onset_column by simp
qed

theorem get_score_sorted_by_onset_witness:
  "get_score two_gts_loader two_gts_dataset 0 Non_aligned False
     = Inr [[62, 1 / 2, 1, 90, 40, 0], [48, 1, - 255, - 255, 42, 1], [60, 3 / 2, 2, 80, 40, 0]]
   \<and> sorted (column [[62, 1 / 2, 1, 90, 40, 0], [48, 1, - 255, - 255, 42, 1],
                       [60, 3 / 2, 2, 80, 40, 0 :: real]] 1)"
  using two_gts_score get_score_sorted_by_onset [OF two_gts_score] by simp

end
